theory Spec2Isabelle
  imports Main
begin

section \<open>The abstract factory of \<open>src/index.ts\<close>\<close>

text \<open>
  The module declares three interfaces (\<open>FabricaAbstracta\<close>, \<open>ProductoAbstractoA\<close>,
  \<open>ProductoAbstractoB\<close>), two classes for each of them, the client function
  \<open>codigoCliente\<close>, and five statements at module scope that print to the console.

  No class has a field and no method assigns anything, so an object is modelled by its
  methods: an interface is a record with one field for each method, and a class is the
  record value that its constructor builds. A method without parameters takes \<open>()\<close>.
  A method is taken at its declared signature: one declared \<open>(): string\<close> is a function
  that returns a string.

  TypeScript's interfaces are structural: every object that has a method
  \<open>funcionUtilA(): string\<close> is a \<open>ProductoAbstractoA\<close>, whatever else it has. The record
  scheme \<open>'z ProductoAbstractoA_scheme\<close> says the same: \<open>'z\<close> is what the object has
  beyond the interface.

  A string is the list of the UTF-16 code units of the TypeScript string. All the literals
  of the module are in Latin-1, so every code unit fits a \<open>char\<close>: the letters outside
  ASCII are written \<open>CHR 0xF3\<close> (o with acute accent) and \<open>CHR 0xE1\<close> (a with acute
  accent).
\<close>

subsection \<open>Products of family A\<close>

text \<open>
  \<^verbatim>\<open>
  interface ProductoAbstractoA {
      funcionUtilA(): string;
  }
  \<close>
\<close>

record ProductoAbstractoA =
  funcionUtilA :: "unit \<Rightarrow> string"

text \<open>
  \<^verbatim>\<open>
  class ProductoConcretoA1 implements ProductoAbstractoA {
      public funcionUtilA(): string {
          return 'El resultado del producto A1.';
      }
  }
  \<close>
  and the same with \<open>A2\<close> for \<open>ProductoConcretoA2\<close>.
\<close>

definition ProductoConcretoA1 :: ProductoAbstractoA where
  "ProductoConcretoA1 =
     \<lparr> funcionUtilA = (\<lambda>_. ''El resultado del producto A1.'') \<rparr>"

definition ProductoConcretoA2 :: ProductoAbstractoA where
  "ProductoConcretoA2 =
     \<lparr> funcionUtilA = (\<lambda>_. ''El resultado del producto A2.'') \<rparr>"

subsection \<open>Products of family B\<close>

text \<open>
  \<^verbatim>\<open>
  interface ProductoAbstractoB {
      funcionUtilB(): string;
      otraFuncionUtilB(colaborador: ProductoAbstractoA): string;
  }
  \<close>
  The collaborator is any object with the method of \<open>ProductoAbstractoA\<close>; \<open>'z\<close> is the
  rest of the collaborators that this object is handed.
\<close>

record 'z ProductoAbstractoB =
  funcionUtilB :: "unit \<Rightarrow> string"
  otraFuncionUtilB :: "'z ProductoAbstractoA_scheme \<Rightarrow> string"

text \<open>
  \<^verbatim>\<open>
  class ProductoConcretoB1 implements ProductoAbstractoB {
      public funcionUtilB(): string {
          return 'El resultado del producto B1.';
      }
      public otraFuncionUtilB(colaborador: ProductoAbstractoA): string {
          const resultado = colaborador.funcionUtilA();
          return `El resultado de B1 colaborando con el (${resultado})`;
      }
  }
  \<close>
  and the same with \<open>B2\<close> for \<open>ProductoConcretoB2\<close>. The template literal concatenates
  its three parts; \<open>resultado\<close> is a string already, so the substitution converts nothing.
\<close>

definition ProductoConcretoB1 :: "'z ProductoAbstractoB" where
  "ProductoConcretoB1 =
     \<lparr> funcionUtilB = (\<lambda>_. ''El resultado del producto B1.''),
       otraFuncionUtilB = (\<lambda>colaborador.
         let resultado = funcionUtilA colaborador ()
         in ''El resultado de B1 colaborando con el ('' @ resultado @ '')'') \<rparr>"

definition ProductoConcretoB2 :: "'z ProductoAbstractoB" where
  "ProductoConcretoB2 =
     \<lparr> funcionUtilB = (\<lambda>_. ''El resultado del producto B2.''),
       otraFuncionUtilB = (\<lambda>colaborador.
         let resultado = funcionUtilA colaborador ()
         in ''El resultado de B2 colaborando con el ('' @ resultado @ '')'') \<rparr>"

subsection \<open>Factories\<close>

text \<open>
  \<^verbatim>\<open>
  interface FabricaAbstracta {
      crearProductoA(): ProductoAbstractoA;
      crearProductoB(): ProductoAbstractoB;
  }
  \<close>
\<close>

record 'z FabricaAbstracta =
  crearProductoA :: "unit \<Rightarrow> 'z ProductoAbstractoA_scheme"
  crearProductoB :: "unit \<Rightarrow> 'z ProductoAbstractoB"

text \<open>
  \<^verbatim>\<open>
  class FabricaConcreta1 implements FabricaAbstracta {
      public crearProductoA(): ProductoAbstractoA { return new ProductoConcretoA1(); }
      public crearProductoB(): ProductoAbstractoB { return new ProductoConcretoB1(); }
  }
  class FabricaConcreta2 implements FabricaAbstracta {
      public crearProductoA(): ProductoAbstractoA { return new ProductoConcretoA2(); }
      public crearProductoB(): ProductoAbstractoB { return new ProductoConcretoB2(); }
  }
  \<close>
\<close>

definition FabricaConcreta1 :: "unit FabricaAbstracta" where
  "FabricaConcreta1 =
     \<lparr> crearProductoA = (\<lambda>_. ProductoConcretoA1),
       crearProductoB = (\<lambda>_. ProductoConcretoB1) \<rparr>"

definition FabricaConcreta2 :: "unit FabricaAbstracta" where
  "FabricaConcreta2 =
     \<lparr> crearProductoA = (\<lambda>_. ProductoConcretoA2),
       crearProductoB = (\<lambda>_. ProductoConcretoB2) \<rparr>"

subsection \<open>The console and the client\<close>

text \<open>
  The only state of the program is what it has written to standard output. The console is
  the list of the messages written so far, the oldest first; \<open>console.log\<close> adds one
  message, which it writes followed by a line break.
\<close>

type_synonym consola = "string list"

definition console_log :: "string \<Rightarrow> consola \<Rightarrow> consola" where
  "console_log mensaje c = c @ [mensaje]"

text \<open>
  \<^verbatim>\<open>
  function codigoCliente(fabrica: FabricaAbstracta) {
      const productoA = fabrica.crearProductoA();
      const productoB = fabrica.crearProductoB();

      console.log(productoB.funcionUtilB());
      console.log(productoB.otraFuncionUtilB(productoA));
  }
  \<close>
\<close>

definition codigoCliente :: "'z FabricaAbstracta \<Rightarrow> consola \<Rightarrow> consola" where
  "codigoCliente fabrica c =
     (let productoA = crearProductoA fabrica ();
          productoB = crearProductoB fabrica ();
          c1 = console_log (funcionUtilB productoB ()) c;
          c2 = console_log (otraFuncionUtilB productoB productoA) c1
      in c2)"

text \<open>
  The statements at module scope, which run once when the module is loaded:
  \<^verbatim>\<open>
  console.log('Cliente: Probando el codigo del cliente con el primer tipo de fabrica...');
  codigoCliente(new FabricaConcreta1());
  console.log('');
  console.log('Cliente: Probando el mismo codigo del cliente con el segundo tipo de fabrica...');
  codigoCliente(new FabricaConcreta2());
  \<close>
  where the source has an acute accent on the first \<open>o\<close> of \<open>codigo\<close> and on the
  \<open>a\<close> of \<open>fabrica\<close>.
\<close>

definition index_ts :: "consola \<Rightarrow> consola" where
  "index_ts c =
     (let c1 = console_log (''Cliente: Probando el c'' @ [CHR 0xF3] @
                 ''digo del cliente con el primer tipo de f'' @ [CHR 0xE1] @ ''brica...'') c;
          c2 = codigoCliente FabricaConcreta1 c1;
          c3 = console_log [] c2;
          c4 = console_log (''Cliente: Probando el mismo c'' @ [CHR 0xF3] @
                 ''digo del cliente con el segundo tipo de f'' @ [CHR 0xE1] @ ''brica...'') c3;
          c5 = codigoCliente FabricaConcreta2 c4
      in c5)"

subsection \<open>The operations as calls that may not return\<close>

text \<open>
  The records above take every method at its declared type. TypeScript does not hold an
  implementer to it: a call of a method of an object that the module is handed may write
  to the console, throw, never return, or do now one thing and now another. To state what
  the module's own operations add to that, they are given a second time, as calls.

  A call starts on a console and has a set of possible ends. An end is an outcome (a value
  returned, a value thrown, or no return) with the console at that point. A call that
  always returns the same value on a given console has one end there.
\<close>

datatype ('e, 'a) outcome = Returns 'a | Throws 'e | Diverges

type_synonym ('e, 'a) call = "consola \<Rightarrow> (('e, 'a) outcome \<times> consola) set"

text \<open>\<open>return v\<close>: one end, the value, on the console as it is.\<close>

definition return_call :: "'a \<Rightarrow> ('e, 'a) call" where
  "return_call v c = {(Returns v, c)}"

text \<open>
  One call after another, \<open>const v = m(); f(v)\<close>: where the first returns, the second starts
  on the console that the first left; where the first throws or does not return, so does
  the whole, since the module has no \<open>try\<close>.
\<close>

definition bind_call :: "('e, 'a) call \<Rightarrow> ('a \<Rightarrow> ('e, 'b) call) \<Rightarrow> ('e, 'b) call" where
  "bind_call m f c =
     (\<Union>(r, c') \<in> m c.
        case r of
          Returns v \<Rightarrow> f v c'
        | Throws e \<Rightarrow> {(Throws e, c')}
        | Diverges \<Rightarrow> {(Diverges, c')})"

definition console_log_io :: "string \<Rightarrow> ('e, unit) call" where
  "console_log_io mensaje c = {(Returns (), console_log mensaje c)}"

text \<open>The three interfaces, with methods that are calls.\<close>

record 'e ProductoAbstractoA_io =
  funcionUtilA_io :: "unit \<Rightarrow> ('e, string) call"

record 'e ProductoAbstractoB_io =
  funcionUtilB_io :: "unit \<Rightarrow> ('e, string) call"
  otraFuncionUtilB_io :: "'e ProductoAbstractoA_io \<Rightarrow> ('e, string) call"

record 'e FabricaAbstracta_io =
  crearProductoA_io :: "unit \<Rightarrow> ('e, 'e ProductoAbstractoA_io) call"
  crearProductoB_io :: "unit \<Rightarrow> ('e, 'e ProductoAbstractoB_io) call"

text \<open>
  The six classes. A method whose body is \<open>return\<close> of a literal or of \<open>new\<close> of a class
  without constructor is \<open>return_call\<close>; \<open>otraFuncionUtilB\<close> calls its collaborator first.
\<close>

definition ProductoConcretoA1_io :: "'e ProductoAbstractoA_io" where
  "ProductoConcretoA1_io =
     \<lparr> funcionUtilA_io = (\<lambda>_. return_call ''El resultado del producto A1.'') \<rparr>"

definition ProductoConcretoA2_io :: "'e ProductoAbstractoA_io" where
  "ProductoConcretoA2_io =
     \<lparr> funcionUtilA_io = (\<lambda>_. return_call ''El resultado del producto A2.'') \<rparr>"

definition ProductoConcretoB1_io :: "'e ProductoAbstractoB_io" where
  "ProductoConcretoB1_io =
     \<lparr> funcionUtilB_io = (\<lambda>_. return_call ''El resultado del producto B1.''),
       otraFuncionUtilB_io = (\<lambda>colaborador.
         bind_call (funcionUtilA_io colaborador ()) (\<lambda>resultado.
         return_call (''El resultado de B1 colaborando con el ('' @ resultado @ '')''))) \<rparr>"

definition ProductoConcretoB2_io :: "'e ProductoAbstractoB_io" where
  "ProductoConcretoB2_io =
     \<lparr> funcionUtilB_io = (\<lambda>_. return_call ''El resultado del producto B2.''),
       otraFuncionUtilB_io = (\<lambda>colaborador.
         bind_call (funcionUtilA_io colaborador ()) (\<lambda>resultado.
         return_call (''El resultado de B2 colaborando con el ('' @ resultado @ '')''))) \<rparr>"

definition FabricaConcreta1_io :: "'e FabricaAbstracta_io" where
  "FabricaConcreta1_io =
     \<lparr> crearProductoA_io = (\<lambda>_. return_call ProductoConcretoA1_io),
       crearProductoB_io = (\<lambda>_. return_call ProductoConcretoB1_io) \<rparr>"

definition FabricaConcreta2_io :: "'e FabricaAbstracta_io" where
  "FabricaConcreta2_io =
     \<lparr> crearProductoA_io = (\<lambda>_. return_call ProductoConcretoA2_io),
       crearProductoB_io = (\<lambda>_. return_call ProductoConcretoB2_io) \<rparr>"

text \<open>
  The client: the four method calls and the two \<open>console.log\<close> in the order of the
  source, the argument of each \<open>console.log\<close> before the \<open>console.log\<close> itself. The
  function has no \<open>return\<close>: where it returns, it returns \<open>undefined\<close>, here \<open>()\<close>.
\<close>

definition codigoCliente_io :: "'e FabricaAbstracta_io \<Rightarrow> ('e, unit) call" where
  "codigoCliente_io fabrica =
     bind_call (crearProductoA_io fabrica ()) (\<lambda>productoA.
     bind_call (crearProductoB_io fabrica ()) (\<lambda>productoB.
     bind_call (funcionUtilB_io productoB ()) (\<lambda>mensaje1.
     bind_call (console_log_io mensaje1) (\<lambda>_.
     bind_call (otraFuncionUtilB_io productoB productoA) (\<lambda>mensaje2.
     console_log_io mensaje2)))))"

section \<open>Properties\<close>

text \<open>
  C2 (as the code has it): \<open>funcionUtilA\<close> of \<open>ProductoConcretoA1\<close> returns the literal
  \<open>El resultado del producto A1.\<close>, that of \<open>ProductoConcretoA2\<close> returns
  \<open>El resultado del producto A2.\<close>, and the two literals differ. The method is a
  function of nothing, so it has no effect.
\<close>

theorem funcionUtilA_literals:
  "funcionUtilA ProductoConcretoA1 () = ''El resultado del producto A1.'' \<and>
   funcionUtilA ProductoConcretoA2 () = ''El resultado del producto A2.'' \<and>
   funcionUtilA ProductoConcretoA1 () \<noteq> funcionUtilA ProductoConcretoA2 ()"
  by (simp add: ProductoConcretoA1_def ProductoConcretoA2_def)

text \<open>
  C2 as the specification words it fails: the string that \<open>ProductoConcretoA1\<close> returns
  is not \<open>result of product A1.\<close>
\<close>

theorem funcionUtilA_english_counterexample:
  "funcionUtilA ProductoConcretoA1 () \<noteq> ''result of product A1.''"
  by (simp add: ProductoConcretoA1_def)

text \<open>
  C3 (as the code has it): \<open>funcionUtilB\<close> of \<open>ProductoConcretoB1\<close> returns the literal
  \<open>El resultado del producto B1.\<close>, and that of \<open>ProductoConcretoB2\<close> returns
  \<open>El resultado del producto B2.\<close>
\<close>

theorem funcionUtilB_literals:
  "funcionUtilB ProductoConcretoB1 () = ''El resultado del producto B1.'' \<and>
   funcionUtilB ProductoConcretoB2 () = ''El resultado del producto B2.''"
  by (simp add: ProductoConcretoB1_def ProductoConcretoB2_def)

text \<open>
  C3 as the specification words it fails: the string that \<open>ProductoConcretoB1\<close> returns
  is not \<open>result of product B1.\<close>
\<close>

theorem funcionUtilB_english_counterexample:
  "funcionUtilB ProductoConcretoB1 () \<noteq> ''result of product B1.''"
  by (simp add: ProductoConcretoB1_def)

text \<open>
  C4 (as the code has it): \<open>otraFuncionUtilB\<close> of \<open>ProductoConcretoB1\<close>, handed a
  \<open>ProductoConcretoA1\<close>, returns exactly
  \<open>El resultado de B1 colaborando con el (El resultado del producto A1.)\<close>
\<close>

theorem otraFuncionUtilB_B1_A1:
  "otraFuncionUtilB ProductoConcretoB1 ProductoConcretoA1 =
     ''El resultado de B1 colaborando con el (El resultado del producto A1.)''"
  by (simp add: ProductoConcretoB1_def ProductoConcretoA1_def)

text \<open>
  C4 as the specification words it fails: the string returned is not
  \<open>result of B1 collaborating with the (result of product A1.)\<close>
\<close>

theorem otraFuncionUtilB_B1_A1_english_counterexample:
  "otraFuncionUtilB ProductoConcretoB1 ProductoConcretoA1 \<noteq>
     ''result of B1 collaborating with the (result of product A1.)''"
  by (simp add: ProductoConcretoB1_def ProductoConcretoA1_def)

text \<open>
  C5 (as the code has it): for every object \<open>a\<close> that has the method of
  \<open>ProductoAbstractoA\<close>, of whatever class, \<open>otraFuncionUtilB\<close> of either B class checks
  nothing and returns its own prefix, the result of \<open>a.funcionUtilA()\<close> and a closing
  parenthesis. In particular \<open>ProductoConcretoB1\<close> handed a \<open>ProductoConcretoA2\<close> returns
  \<open>El resultado de B1 colaborando con el (El resultado del producto A2.)\<close>
\<close>

theorem otraFuncionUtilB_any_collaborator:
  "otraFuncionUtilB ProductoConcretoB1 a =
     ''El resultado de B1 colaborando con el ('' @ funcionUtilA a () @ '')'' \<and>
   otraFuncionUtilB ProductoConcretoB2 a =
     ''El resultado de B2 colaborando con el ('' @ funcionUtilA a () @ '')'' \<and>
   otraFuncionUtilB ProductoConcretoB1 ProductoConcretoA2 =
     ''El resultado de B1 colaborando con el (El resultado del producto A2.)''"
  by (simp add: ProductoConcretoB1_def ProductoConcretoB2_def ProductoConcretoA2_def)

text \<open>
  C5 as the specification words it fails: \<open>ProductoConcretoB1\<close> handed a
  \<open>ProductoConcretoA2\<close> does not return
  \<open>result of B1 collaborating with the (result of product A2.)\<close>
\<close>

theorem otraFuncionUtilB_B1_A2_english_counterexample:
  "otraFuncionUtilB ProductoConcretoB1 ProductoConcretoA2 \<noteq>
     ''result of B1 collaborating with the (result of product A2.)''"
  by (simp add: ProductoConcretoB1_def ProductoConcretoA2_def)

text \<open>
  C6: \<open>FabricaConcreta1\<close> creates a \<open>ProductoConcretoA1\<close> and a \<open>ProductoConcretoB1\<close>,
  \<open>FabricaConcreta2\<close> creates a \<open>ProductoConcretoA2\<close> and a \<open>ProductoConcretoB2\<close>, and
  neither creates a product of the other variant.
\<close>

theorem factories_pair_variants:
  "crearProductoA FabricaConcreta1 () = ProductoConcretoA1 \<and>
   crearProductoB FabricaConcreta1 () = ProductoConcretoB1 \<and>
   crearProductoA FabricaConcreta2 () = ProductoConcretoA2 \<and>
   crearProductoB FabricaConcreta2 () = ProductoConcretoB2 \<and>
   crearProductoA FabricaConcreta1 () \<noteq> ProductoConcretoA2 \<and>
   crearProductoB FabricaConcreta1 () \<noteq> ProductoConcretoB2 \<and>
   crearProductoA FabricaConcreta2 () \<noteq> ProductoConcretoA1 \<and>
   crearProductoB FabricaConcreta2 () \<noteq> ProductoConcretoB1"
  by (simp add: FabricaConcreta1_def FabricaConcreta2_def ProductoConcretoA1_def
      ProductoConcretoA2_def ProductoConcretoB1_def ProductoConcretoB2_def fun_eq_iff)

text \<open>
  C10: \<open>codigoCliente\<close> takes any object with the two methods of \<open>FabricaAbstracta\<close>
  and checks nothing about what it creates. For every such factory it writes exactly two
  messages after what the console holds: \<open>funcionUtilB()\<close> of the B product created, then
  \<open>otraFuncionUtilB\<close> of that B product applied to the A product created. The result of
  \<open>funcionUtilA()\<close> is never written as a message of its own. A factory that pairs
  \<open>ProductoConcretoA1\<close> with \<open>ProductoConcretoB2\<close> is served like any other.
\<close>

theorem codigoCliente_writes_two_messages:
  "codigoCliente fabrica c =
     c @ [funcionUtilB (crearProductoB fabrica ()) (),
          otraFuncionUtilB (crearProductoB fabrica ()) (crearProductoA fabrica ())] \<and>
   codigoCliente \<lparr> crearProductoA = (\<lambda>_. ProductoConcretoA1),
                   crearProductoB = (\<lambda>_. ProductoConcretoB2) \<rparr> c =
     c @ [''El resultado del producto B2.'',
          ''El resultado de B2 colaborando con el (El resultado del producto A1.)'']"
  by (simp add: codigoCliente_def console_log_def Let_def ProductoConcretoA1_def
      ProductoConcretoB2_def)

text \<open>
  C7: what an invocation of \<open>codigoCliente\<close> writes does not depend on what was written
  before: on any console it adds the messages that it writes on an empty one. So two
  invocations in sequence with the same factory write the same messages twice.
\<close>

theorem codigoCliente_twice:
  "codigoCliente fabrica c = c @ codigoCliente fabrica [] \<and>
   codigoCliente fabrica (codigoCliente fabrica c) =
     c @ codigoCliente fabrica [] @ codigoCliente fabrica []"
  by (simp add: codigoCliente_def console_log_def Let_def)

text \<open>
  C9: \<open>otraFuncionUtilB\<close> of either B class uses its collaborator through the result of
  \<open>funcionUtilA()\<close> only: two collaborators with the same result, whatever else
  distinguishes them, give the same string.
\<close>

theorem otraFuncionUtilB_depends_on_funcionUtilA:
  "funcionUtilA a1 () = funcionUtilA a2 () \<Longrightarrow>
     otraFuncionUtilB ProductoConcretoB1 a1 = otraFuncionUtilB ProductoConcretoB1 a2 \<and>
     otraFuncionUtilB ProductoConcretoB2 a1 = otraFuncionUtilB ProductoConcretoB2 a2"
  by (simp add: ProductoConcretoB1_def ProductoConcretoB2_def)

text \<open>
  Witness for C9: two objects of classes that have a member beyond the interface, different
  in that member and with the result of \<open>ProductoConcretoA1\<close> for \<open>funcionUtilA()\<close>.
\<close>

theorem otraFuncionUtilB_depends_on_funcionUtilA_witness:
  "funcionUtilA \<lparr> funcionUtilA = funcionUtilA ProductoConcretoA1, \<dots> = True \<rparr> () =
     funcionUtilA \<lparr> funcionUtilA = funcionUtilA ProductoConcretoA1, \<dots> = False \<rparr> () \<and>
   \<lparr> funcionUtilA = funcionUtilA ProductoConcretoA1, \<dots> = True \<rparr> \<noteq>
     \<lparr> funcionUtilA = funcionUtilA ProductoConcretoA1, \<dots> = False \<rparr> \<and>
   otraFuncionUtilB ProductoConcretoB1
       \<lparr> funcionUtilA = funcionUtilA ProductoConcretoA1, \<dots> = True \<rparr> =
     otraFuncionUtilB ProductoConcretoB1
       \<lparr> funcionUtilA = funcionUtilA ProductoConcretoA1, \<dots> = False \<rparr> \<and>
   otraFuncionUtilB ProductoConcretoB2
       \<lparr> funcionUtilA = funcionUtilA ProductoConcretoA1, \<dots> = True \<rparr> =
     otraFuncionUtilB ProductoConcretoB2
       \<lparr> funcionUtilA = funcionUtilA ProductoConcretoA1, \<dots> = False \<rparr>"
  using otraFuncionUtilB_depends_on_funcionUtilA
    [of "\<lparr> funcionUtilA = funcionUtilA ProductoConcretoA1, \<dots> = True \<rparr>"
        "\<lparr> funcionUtilA = funcionUtilA ProductoConcretoA1, \<dots> = False \<rparr>"]
  by simp

text \<open>
  C1 (as the code has it): loaded with nothing on the console, the module writes seven
  messages in this order: the header for the first factory, the two messages of
  \<open>codigoCliente\<close> for \<open>FabricaConcreta1\<close>, an empty message, the header for the second
  factory, and the two messages of \<open>codigoCliente\<close> for \<open>FabricaConcreta2\<close>. All of them
  are in Spanish.
\<close>

theorem index_ts_output:
  "index_ts [] =
     [''Cliente: Probando el c'' @ [CHR 0xF3] @
        ''digo del cliente con el primer tipo de f'' @ [CHR 0xE1] @ ''brica...'',
      ''El resultado del producto B1.'',
      ''El resultado de B1 colaborando con el (El resultado del producto A1.)'',
      [],
      ''Cliente: Probando el mismo c'' @ [CHR 0xF3] @
        ''digo del cliente con el segundo tipo de f'' @ [CHR 0xE1] @ ''brica...'',
      ''El resultado del producto B2.'',
      ''El resultado de B2 colaborando con el (El resultado del producto A2.)'']"
  by (simp add: index_ts_def codigoCliente_def console_log_def Let_def
      FabricaConcreta1_def FabricaConcreta2_def ProductoConcretoA1_def
      ProductoConcretoA2_def ProductoConcretoB1_def ProductoConcretoB2_def)

text \<open>
  C1 as the specification words it fails: what the module writes is not the seven lines of
  section 6 of the specification, which are in English.
\<close>

theorem index_ts_english_counterexample:
  "index_ts [] \<noteq>
     [''Client: Testing client code with the first factory type...'',
      ''result of product B1.'',
      ''result of B1 collaborating with the (result of product A1.)'',
      [],
      ''Client: Testing the same client code with the second factory type...'',
      ''result of product B2.'',
      ''result of B2 collaborating with the (result of product A2.)'']"
  by (simp add: index_ts_def codigoCliente_def console_log_def Let_def
      FabricaConcreta1_def FabricaConcreta2_def ProductoConcretoA1_def
      ProductoConcretoA2_def ProductoConcretoB1_def ProductoConcretoB2_def)

text \<open>
  What the calls do with an input that does not keep to its interface: a collaborator
  whose \<open>funcionUtilA\<close> throws or does not return makes \<open>otraFuncionUtilB\<close> end the same
  way, and a factory whose \<open>crearProductoA\<close> throws makes \<open>codigoCliente\<close> throw before
  it has written anything. The module adds no end of its own to those of its inputs.
\<close>

lemma otraFuncionUtilB_io_collaborator_throws:
  "funcionUtilA_io a () c = {(Throws e, c')} \<Longrightarrow>
     otraFuncionUtilB_io ProductoConcretoB1_io a c = {(Throws e, c')} \<and>
     otraFuncionUtilB_io ProductoConcretoB2_io a c = {(Throws e, c')}"
  by (simp add: ProductoConcretoB1_io_def ProductoConcretoB2_io_def bind_call_def)

lemma otraFuncionUtilB_io_collaborator_diverges:
  "funcionUtilA_io a () c = {(Diverges, c')} \<Longrightarrow>
     otraFuncionUtilB_io ProductoConcretoB1_io a c = {(Diverges, c')} \<and>
     otraFuncionUtilB_io ProductoConcretoB2_io a c = {(Diverges, c')}"
  by (simp add: ProductoConcretoB1_io_def ProductoConcretoB2_io_def bind_call_def)

lemma codigoCliente_io_factory_throws:
  "crearProductoA_io fabrica () c = {(Throws e, c')} \<Longrightarrow>
     codigoCliente_io fabrica c = {(Throws e, c')}"
  by (simp add: codigoCliente_io_def bind_call_def)

text \<open>
  C8 (as the code has it): every operation of the module, on inputs that keep to their
  interface, is total and deterministic and cannot throw, diverge or fail. As calls, on
  any console \<open>c\<close>:
  \<^item> \<open>funcionUtilA\<close> and \<open>funcionUtilB\<close> of the four product classes and the four
    \<open>crear\<close> methods of the two factories have exactly one end: they return their literal
    or the object of their class, the same on every console, and leave the console as it
    is;
  \<^item> \<open>otraFuncionUtilB\<close> of either B class, handed a collaborator \<open>a\<close> whose
    \<open>funcionUtilA\<close> has the one end of returning \<open>s\<close> without writing, has exactly one
    end: it returns the composed string and leaves the console as it is;
  \<^item> \<open>codigoCliente\<close>, handed a factory whose two methods each have the one end of
    returning a product without writing, the methods of those products likewise, has
    exactly one end: it returns, and the console holds the two messages after what it
    held. It is total and deterministic, and it is not pure;
  \<^item> for the two factories of the module that end is the console which \<open>codigoCliente\<close>
    of the first embedding computes.
\<close>

theorem operations_have_one_returning_end:
  assumes "funcionUtilA_io a () c = {(Returns s, c)}"
    and "crearProductoA_io fabrica () c = {(Returns productoA, c)}"
    and "crearProductoB_io fabrica () c = {(Returns productoB, c)}"
    and "funcionUtilB_io productoB () c = {(Returns mensaje1, c)}"
    and "otraFuncionUtilB_io productoB productoA (c @ [mensaje1]) =
           {(Returns mensaje2, c @ [mensaje1])}"
  shows
    "funcionUtilA_io ProductoConcretoA1_io () c =
       {(Returns ''El resultado del producto A1.'', c)} \<and>
     funcionUtilA_io ProductoConcretoA2_io () c =
       {(Returns ''El resultado del producto A2.'', c)} \<and>
     funcionUtilB_io ProductoConcretoB1_io () c =
       {(Returns ''El resultado del producto B1.'', c)} \<and>
     funcionUtilB_io ProductoConcretoB2_io () c =
       {(Returns ''El resultado del producto B2.'', c)} \<and>
     otraFuncionUtilB_io ProductoConcretoB1_io a c =
       {(Returns (''El resultado de B1 colaborando con el ('' @ s @ '')''), c)} \<and>
     otraFuncionUtilB_io ProductoConcretoB2_io a c =
       {(Returns (''El resultado de B2 colaborando con el ('' @ s @ '')''), c)} \<and>
     crearProductoA_io FabricaConcreta1_io () c = {(Returns ProductoConcretoA1_io, c)} \<and>
     crearProductoB_io FabricaConcreta1_io () c = {(Returns ProductoConcretoB1_io, c)} \<and>
     crearProductoA_io FabricaConcreta2_io () c = {(Returns ProductoConcretoA2_io, c)} \<and>
     crearProductoB_io FabricaConcreta2_io () c = {(Returns ProductoConcretoB2_io, c)} \<and>
     codigoCliente_io fabrica c = {(Returns (), c @ [mensaje1, mensaje2])} \<and>
     codigoCliente_io FabricaConcreta1_io c =
       {(Returns (), codigoCliente FabricaConcreta1 c)} \<and>
     codigoCliente_io FabricaConcreta2_io c =
       {(Returns (), codigoCliente FabricaConcreta2 c)}"
  using assms
  by (simp add: return_call_def bind_call_def console_log_io_def codigoCliente_io_def
      ProductoConcretoA1_io_def ProductoConcretoA2_io_def ProductoConcretoB1_io_def
      ProductoConcretoB2_io_def FabricaConcreta1_io_def FabricaConcreta2_io_def
      codigoCliente_def console_log_def Let_def FabricaConcreta1_def FabricaConcreta2_def
      ProductoConcretoA1_def ProductoConcretoA2_def ProductoConcretoB1_def
      ProductoConcretoB2_def)

text \<open>
  Witness for C8: the collaborator is a \<open>ProductoConcretoA2\<close>, the factory a
  \<open>FabricaConcreta1\<close> with the products and the messages that it gives, and the console
  is empty.
\<close>

theorem operations_have_one_returning_end_witness:
  "funcionUtilA_io (ProductoConcretoA2_io :: unit ProductoAbstractoA_io) () [] =
     {(Returns ''El resultado del producto A2.'', [])} \<and>
   crearProductoA_io (FabricaConcreta1_io :: unit FabricaAbstracta_io) () [] =
     {(Returns ProductoConcretoA1_io, [])} \<and>
   crearProductoB_io (FabricaConcreta1_io :: unit FabricaAbstracta_io) () [] =
     {(Returns ProductoConcretoB1_io, [])} \<and>
   funcionUtilB_io (ProductoConcretoB1_io :: unit ProductoAbstractoB_io) () [] =
     {(Returns ''El resultado del producto B1.'', [])} \<and>
   otraFuncionUtilB_io (ProductoConcretoB1_io :: unit ProductoAbstractoB_io)
       ProductoConcretoA1_io ([] @ [''El resultado del producto B1.'']) =
     {(Returns ''El resultado de B1 colaborando con el (El resultado del producto A1.)'',
       [] @ [''El resultado del producto B1.''])} \<and>
   otraFuncionUtilB_io (ProductoConcretoB1_io :: unit ProductoAbstractoB_io)
       ProductoConcretoA2_io [] =
     {(Returns ''El resultado de B1 colaborando con el (El resultado del producto A2.)'',
       [])} \<and>
   codigoCliente_io (FabricaConcreta1_io :: unit FabricaAbstracta_io) [] =
     {(Returns (),
       [''El resultado del producto B1.'',
        ''El resultado de B1 colaborando con el (El resultado del producto A1.)''])}"
proof -
  have h1: "funcionUtilA_io (ProductoConcretoA2_io :: unit ProductoAbstractoA_io) () [] =
      {(Returns ''El resultado del producto A2.'', [])}"
    by (simp add: ProductoConcretoA2_io_def return_call_def)
  have h2: "crearProductoA_io (FabricaConcreta1_io :: unit FabricaAbstracta_io) () [] =
      {(Returns ProductoConcretoA1_io, [])}"
    by (simp add: FabricaConcreta1_io_def return_call_def)
  have h3: "crearProductoB_io (FabricaConcreta1_io :: unit FabricaAbstracta_io) () [] =
      {(Returns ProductoConcretoB1_io, [])}"
    by (simp add: FabricaConcreta1_io_def return_call_def)
  have h4: "funcionUtilB_io (ProductoConcretoB1_io :: unit ProductoAbstractoB_io) () [] =
      {(Returns ''El resultado del producto B1.'', [])}"
    by (simp add: ProductoConcretoB1_io_def return_call_def)
  have h5: "otraFuncionUtilB_io (ProductoConcretoB1_io :: unit ProductoAbstractoB_io)
        ProductoConcretoA1_io ([] @ [''El resultado del producto B1.'']) =
      {(Returns ''El resultado de B1 colaborando con el (El resultado del producto A1.)'',
        [] @ [''El resultado del producto B1.''])}"
    by (simp add: ProductoConcretoB1_io_def ProductoConcretoA1_io_def return_call_def
        bind_call_def)
  note r = operations_have_one_returning_end [OF h1 h2 h3 h4 h5]
  have c5: "otraFuncionUtilB_io (ProductoConcretoB1_io :: unit ProductoAbstractoB_io)
        ProductoConcretoA2_io [] =
      {(Returns ''El resultado de B1 colaborando con el (El resultado del producto A2.)'',
        [])}"
    using r [THEN conjunct2, THEN conjunct2, THEN conjunct2, THEN conjunct2, THEN conjunct1]
    by simp
  have c11: "codigoCliente_io (FabricaConcreta1_io :: unit FabricaAbstracta_io) [] =
      {(Returns (), [''El resultado del producto B1.'',
          ''El resultado de B1 colaborando con el (El resultado del producto A1.)''])}"
    using r [THEN conjunct2, THEN conjunct2, THEN conjunct2, THEN conjunct2, THEN conjunct2,
             THEN conjunct2, THEN conjunct2, THEN conjunct2, THEN conjunct2, THEN conjunct2,
             THEN conjunct1]
    by simp
  show ?thesis
    by (intro conjI h1 h2 h3 h4 h5 c5 c11)
qed

text \<open>
  C8 as the specification words it fails for the client: \<open>codigoCliente\<close> is not a pure
  function, it writes to the console. After an invocation with a \<open>FabricaConcreta1\<close> the
  console is not what it was.
\<close>

theorem codigoCliente_writes_counterexample:
  "codigoCliente FabricaConcreta1 [] \<noteq> []"
  by (simp add: codigoCliente_def console_log_def Let_def)

end
